theory Spec2Isabelle
  imports Complex_Main
begin

section \<open>Data model of the incremental-decoding adapter\<close>

text \<open>
  The exceptions of \<^verbatim>\<open>examples/opt/model/test_text_gen.py\<close> that the model tells apart:
  the \<^verbatim>\<open>NotImplementedError\<close> raised by \<^verbatim>\<open>forward\<close>, the \<^verbatim>\<open>UnboundLocalError\<close> of a
  local read before any assignment, the \<^verbatim>\<open>IndexError\<close> of an index out of range, the
  \<^verbatim>\<open>OverflowError\<close> of an integer that does not fit a fixed-width type, and any exception
  raised inside an external collaborator (a backend model, the distributed executable, a
  conversion between array types), carried with its name.
\<close>

datatype error =
  NotImplementedError | UnboundLocalError | IndexError | OverflowError | Raised string

text \<open>
  A two-dimensional tensor of shape \<^verbatim>\<open>batch x length\<close>, as \<^verbatim>\<open>input_ids\<close> is. It is kept as
  the list of its columns, one column per sequence position, each column holding the
  \<^verbatim>\<open>batch\<close> entries of that position; \<^verbatim>\<open>shape[0]\<close> is stored, since it is not determined by
  the columns when there are none, and \<^verbatim>\<open>shape[1]\<close> is the number of columns.
\<close>

record 'a tensor2 =
  shape0 :: nat
  cols :: "'a list list"

definition shape1 :: "'a tensor2 \<Rightarrow> nat" where
  "shape1 t = length (cols t)"

text \<open>\<^verbatim>\<open>t[:, i:j]\<close> for \<^verbatim>\<open>0 <= i <= j\<close>: Python slices clamp at the end of the axis.\<close>

definition slice_cols :: "'a tensor2 \<Rightarrow> nat \<Rightarrow> nat \<Rightarrow> 'a tensor2" where
  "slice_cols t i j = \<lparr>shape0 = shape0 t, cols = take (j - i) (drop i (cols t))\<rparr>"

text \<open>
  \<^verbatim>\<open>t[:, -1].unsqueeze(-1)\<close>: the last column as a \<^verbatim>\<open>batch x 1\<close> tensor. Indexing position
  \<^verbatim>\<open>-1\<close> of an axis of size 0 raises \<^verbatim>\<open>IndexError\<close>.
\<close>

definition last_col_unsqueeze :: "'a tensor2 \<Rightarrow> error + 'a tensor2" where
  "last_col_unsqueeze t =
     (if cols t = [] then Inl IndexError
      else Inr \<lparr>shape0 = shape0 t, cols = [last (cols t)]\<rparr>)"

text \<open>
  The token ids are 64-bit signed integers (the tokenizer returns a \<^verbatim>\<open>torch.int64\<close> tensor,
  and slicing and \<^verbatim>\<open>.cpu().numpy()\<close> keep the dtype). They are kept as \<^typ>\<open>int\<close>; where a
  Python int is stored into such an array the cast is written out. numpy reads a Python
  int between \<^verbatim>\<open>-2**63\<close> and \<^verbatim>\<open>2**63 - 1\<close> as an int64, and one between \<^verbatim>\<open>2**63\<close> and
  \<^verbatim>\<open>2**64 - 1\<close> as a uint64, which the cast to int64 wraps around; any other Python int has
  no fixed-width reading, and storing it raises \<^verbatim>\<open>OverflowError\<close>.
\<close>

definition int64_cast :: "int \<Rightarrow> error + int" where
  "int64_cast v =
     (if - (2 ^ 63) \<le> v \<and> v < 2 ^ 63 then Inr v
      else if 2 ^ 63 \<le> v \<and> v < 2 ^ 64 then Inr (v - 2 ^ 64)
      else Inl OverflowError)"

text \<open>
  \<^verbatim>\<open>np.full_like(t, v)\<close> for an int64 array \<^verbatim>\<open>t\<close> and a Python int \<^verbatim>\<open>v\<close>: a new array of the
  shape and dtype of \<^verbatim>\<open>t\<close>, every entry of which is assigned \<^verbatim>\<open>v\<close> cast to int64. An array
  without entries is assigned nothing, so nothing can raise there.
\<close>

definition full_like :: "int tensor2 \<Rightarrow> int \<Rightarrow> error + int tensor2" where
  "full_like t v =
     (if concat (cols t) = [] then Inr \<lparr>shape0 = shape0 t, cols = cols t\<rparr>
      else (case int64_cast v of
              Inl e \<Rightarrow> Inl e
            | Inr w \<Rightarrow> Inr \<lparr>shape0 = shape0 t, cols = map (map (\<lambda>_. w)) (cols t)\<rparr>))"

text \<open>\<^verbatim>\<open>torch.ones((b, n))\<close>.\<close>

definition ones :: "nat \<Rightarrow> nat \<Rightarrow> real tensor2" where
  "ones b n = \<lparr>shape0 = b, cols = replicate n (replicate b 1)\<rparr>"

text \<open>
  \<^verbatim>\<open>InferenceFuncOutput\<close>. Every backend of \<^verbatim>\<open>get_model\<close> supplies the logits; the other
  three fields default to \<^verbatim>\<open>None\<close>. \<^typ>\<open>'t\<close> is the type of the opaque result tensors and
  \<^typ>\<open>'c\<close> the type of the incremental cache.
\<close>

record ('t, 'c) InferenceFuncOutput =
  logits :: 't
  past_key_values :: "'c option"
  hidden_states :: "'t option"
  attentions :: "'t option"

text \<open>
  An inference function \<^verbatim>\<open>inference_func(input_ids, past_key_values, output_attentions,
  output_hidden_states)\<close>. It may keep state of its own (\<^typ>\<open>'s\<close>: the captured step
  counter, the state of a runtime) and it may raise; what it did to its state before
  raising stays done, so the state is returned next to the result in both cases.
\<close>

type_synonym ('s, 't, 'c) inference_func =
  "int tensor2 \<Rightarrow> 'c option \<Rightarrow> bool option \<Rightarrow> bool option \<Rightarrow> 's
     \<Rightarrow> (error + ('t, 'c) InferenceFuncOutput) \<times> 's"

text \<open>\<^verbatim>\<open>WrappedInferenceFunc\<close>: the fields set by \<^verbatim>\<open>__init__\<close>.\<close>

record ('s, 't, 'c, 'cfg) WrappedInferenceFunc =
  inference_func :: "('s, 't, 'c) inference_func"
  config :: 'cfg
  main_input_name :: string

definition init :: "('s, 't, 'c) inference_func \<Rightarrow> 'cfg \<Rightarrow> ('s, 't, 'c, 'cfg) WrappedInferenceFunc" where
  "init f cfg = \<lparr>inference_func = f, config = cfg, main_input_name = ''input_ids''\<rparr>"

section \<open>The adapter's operations\<close>

text \<open>\<^verbatim>\<open>forward(self, attention_mask)\<close>: its body is \<^verbatim>\<open>raise NotImplementedError()\<close>.\<close>

definition forward :: "('s, 't, 'c, 'cfg) WrappedInferenceFunc \<Rightarrow> 'm \<Rightarrow> error + 'r" where
  "forward self attention_mask = Inl NotImplementedError"

text \<open>
  The truth value Python gives \<^verbatim>\<open>past\<close> in \<^verbatim>\<open>if past:\<close>. The cache of each backend is a
  tuple with one entry per layer, so \<^verbatim>\<open>past\<close> is \<^verbatim>\<open>None\<close> (false) or a tuple, which is true
  exactly when it is not empty.
\<close>

fun truthy :: "'k list option \<Rightarrow> bool" where
  "truthy None = False"
| "truthy (Some layers) = (layers \<noteq> [])"

text \<open>The dictionary \<^verbatim>\<open>prepare_inputs_for_generation\<close> returns, with its two fixed keys.\<close>

record 'k generation_inputs =
  gen_input_ids :: "int tensor2"
  gen_past_key_values :: "'k list option"

definition prepare_inputs_for_generation ::
  "('s, 't, 'k list, 'cfg) WrappedInferenceFunc \<Rightarrow> int tensor2 \<Rightarrow> 'k list option
     \<Rightarrow> error + 'k generation_inputs" where
  "prepare_inputs_for_generation self input_ids past =
     (if truthy past then
        (case last_col_unsqueeze input_ids of
           Inl e \<Rightarrow> Inl e
         | Inr input_ids' \<Rightarrow> Inr \<lparr>gen_input_ids = input_ids', gen_past_key_values = past\<rparr>)
      else Inr \<lparr>gen_input_ids = input_ids, gen_past_key_values = past\<rparr>)"

text \<open>
  The loop of \<^verbatim>\<open>__call__\<close> over the remaining positions of \<^verbatim>\<open>range(input_ids.shape[1])\<close>.
  Its variables are the cache \<^verbatim>\<open>past_key_values\<close> and \<^verbatim>\<open>ret\<close>, which is unbound
  (\<^const>\<open>None\<close>) until the body has run once. An exception of the inference function
  leaves the loop at once.
\<close>

fun call_loop ::
  "('s, 't, 'c) inference_func \<Rightarrow> int tensor2 \<Rightarrow> bool option \<Rightarrow> bool option \<Rightarrow> nat list
     \<Rightarrow> 'c option \<Rightarrow> ('t, 'c) InferenceFuncOutput option \<Rightarrow> 's
     \<Rightarrow> (error + ('t, 'c) InferenceFuncOutput option) \<times> 's" where
  "call_loop f input_ids output_attentions output_hidden_states [] past ret st = (Inr ret, st)"
| "call_loop f input_ids output_attentions output_hidden_states (i # is) past ret st =
     (case f (slice_cols input_ids i (i + 1)) past output_attentions output_hidden_states st of
        (Inl e, st') \<Rightarrow> (Inl e, st')
      | (Inr r, st') \<Rightarrow>
          call_loop f input_ids output_attentions output_hidden_states is
            (past_key_values r) (Some r) st')"

text \<open>
  \<^verbatim>\<open>__call__(self, input_ids, past_key_values, output_attentions, output_hidden_states,
  return_dict)\<close>. \<^verbatim>\<open>return ret\<close> after a loop that never ran reads an unbound local.
\<close>

definition call ::
  "('s, 't, 'c, 'cfg) WrappedInferenceFunc \<Rightarrow> int tensor2 \<Rightarrow> 'c option \<Rightarrow> bool option
     \<Rightarrow> bool option \<Rightarrow> bool option \<Rightarrow> 's \<Rightarrow> (error + ('t, 'c) InferenceFuncOutput) \<times> 's" where
  "call self input_ids past output_attentions output_hidden_states return_dict st =
     (case call_loop (inference_func self) input_ids output_attentions output_hidden_states
             [0..<shape1 input_ids] past None st of
        (Inl e, st') \<Rightarrow> (Inl e, st')
      | (Inr None, st') \<Rightarrow> (Inl UnboundLocalError, st')
      | (Inr (Some ret), st') \<Rightarrow> (Inr ret, st'))"

section \<open>Observing the invocations of an inference function\<close>

text \<open>
  To speak about which invocations the adapter makes, an inference function is wrapped so
  that it appends each invocation (its two positional arguments and what came back) to a
  log kept beside its own state. The wrapper changes neither results nor state.
\<close>

record ('t, 'c) invocation =
  inv_input_ids :: "int tensor2"
  inv_past :: "'c option"
  inv_result :: "error + ('t, 'c) InferenceFuncOutput"

definition traced ::
  "('s, 't, 'c) inference_func \<Rightarrow> ('s \<times> ('t, 'c) invocation list, 't, 'c) inference_func" where
  "traced f input_ids past output_attentions output_hidden_states sl =
     (case sl of (st, trace) \<Rightarrow>
        (case f input_ids past output_attentions output_hidden_states st of
           (r, st') \<Rightarrow>
             (r, (st', trace @ [\<lparr>inv_input_ids = input_ids, inv_past = past, inv_result = r\<rparr>]))))"

section \<open>The HuggingFace causal-LM backend (\<^verbatim>\<open>facebook/opt\<close> branch of \<^verbatim>\<open>get_model\<close>)\<close>

text \<open>
  An n-dimensional array, as far as the code looks at it: its \<^verbatim>\<open>shape\<close>. The record is
  extensible, so an array with contents is an instance too.
\<close>

record array =
  shape :: "nat list"

definition ndim :: "'z array_scheme \<Rightarrow> nat" where
  "ndim x = length (shape x)"

text \<open>
  The cache of a causal LM is a tuple with one entry per layer, each a tuple of tensors
  (key, value). \<^verbatim>\<open>past_key_values[0][0].shape[2]\<close> raises \<^verbatim>\<open>IndexError\<close> when a tuple is
  empty or the tensor has fewer than three dimensions.
\<close>

definition past_length :: "'z array_scheme list list \<Rightarrow> error + nat" where
  "past_length pkv =
     (case pkv of
        [] \<Rightarrow> Inl IndexError
      | layer # _ \<Rightarrow>
          (case layer of
             [] \<Rightarrow> Inl IndexError
           | key # _ \<Rightarrow> if 2 < length (shape key) then Inr (shape key ! 2) else Inl IndexError))"

text \<open>What the inference function reads of the model's output: \<^verbatim>\<open>out.logits\<close> and
  \<^verbatim>\<open>out.past_key_values\<close>.\<close>

record ('t, 'c) CausalLMOutputWithPast =
  lm_logits :: 't
  lm_past_key_values :: "'c option"

text \<open>
  \<^verbatim>\<open>raw_model(input_ids=..., attention_mask=..., past_key_values=..., output_attentions=...,
  output_hidden_states=...)\<close>: the external model, with a state of its own (\<^typ>\<open>'x\<close>).
\<close>

type_synonym ('x, 't, 'c) raw_model =
  "int tensor2 \<Rightarrow> real tensor2 option \<Rightarrow> 'c option \<Rightarrow> bool option \<Rightarrow> bool option \<Rightarrow> 'x
     \<Rightarrow> (error + ('t, 'c) CausalLMOutputWithPast) \<times> 'x"

definition opt_inference_func ::
  "('x, 't, 'z array_scheme list list) raw_model
     \<Rightarrow> ('x, 't, 'z array_scheme list list) inference_func" where
  "opt_inference_func raw_model input_ids past output_attentions output_hidden_states st =
     (case (case past of
              None \<Rightarrow> Inr None
            | Some pkv \<Rightarrow>
                (case past_length pkv of
                   Inl e \<Rightarrow> Inl e
                 | Inr n \<Rightarrow> Inr (Some (ones (shape0 input_ids) (n + 1))))) of
        Inl e \<Rightarrow> (Inl e, st)
      | Inr attention_mask \<Rightarrow>
          (case raw_model input_ids attention_mask past output_attentions output_hidden_states st of
             (Inl e, st') \<Rightarrow> (Inl e, st')
           | (Inr out, st') \<Rightarrow>
               (Inr \<lparr>logits = lm_logits out, past_key_values = lm_past_key_values out,
                     hidden_states = None, attentions = None\<rparr>, st')))"

text \<open>
  To speak about the mask the model is given, a model is wrapped so that it appends the
  arguments of each call to a log kept beside its state.
\<close>

record 'c model_call =
  call_input_ids :: "int tensor2"
  call_attention_mask :: "real tensor2 option"
  call_past :: "'c option"

definition logged_model :: "('x, 't, 'c) raw_model \<Rightarrow> ('x \<times> 'c model_call list, 't, 'c) raw_model" where
  "logged_model m input_ids attention_mask past output_attentions output_hidden_states xl =
     (case xl of (x, calls) \<Rightarrow>
        (case m input_ids attention_mask past output_attentions output_hidden_states x of
           (r, x') \<Rightarrow>
             (r, (x', calls @ [\<lparr>call_input_ids = input_ids, call_attention_mask = attention_mask,
                                call_past = past\<rparr>]))))"

section \<open>The distributed-executable backend (\<^verbatim>\<open>alpa/opt\<close> branch of \<^verbatim>\<open>get_model\<close>)\<close>

text \<open>
  The dictionary given to the executable, with its keys \<^verbatim>\<open>"input_ids"\<close>,
  \<^verbatim>\<open>"position_ids"\<close> and \<^verbatim>\<open>"cache"\<close>, and the fields read of its output.
\<close>

record 'c executable_input =
  in_input_ids :: "int tensor2"
  in_position_ids :: "int tensor2"
  in_cache :: 'c

record ('a, 't, 'c) executable_output =
  out_logits :: 'a
  attention_cache :: 'c
  out_hidden_states :: "'t option"
  out_attentions :: "'t option"

type_synonym ('p, 'x, 'a, 't, 'c) executable =
  "'p \<Rightarrow> 'c executable_input \<Rightarrow> 'x \<Rightarrow> (error + ('a, 't, 'c) executable_output) \<times> 'x"

text \<open>
  What the closure \<^verbatim>\<open>inference_func\<close> captures from \<^verbatim>\<open>get_model\<close>: the executable, the
  parameters, the initial cache and \<^verbatim>\<open>config.pad\<close>, and with \<^verbatim>\<open>device\<close> the conversion
  \<^verbatim>\<open>torch.from_numpy(np.array(...)).to(device)\<close> of the runtime's logits (\<^typ>\<open>'a\<close>) into a
  tensor of the caller (\<^typ>\<open>'t\<close>), which may raise as any external call may. Its mutable
  part is the \<^verbatim>\<open>nonlocal\<close> counter \<^verbatim>\<open>step_ct\<close>, a Python int that \<^verbatim>\<open>get_model\<close> sets to 0,
  and the state of the runtime behind the executable.
\<close>

record ('p, 'x, 'a, 't, 'c) alpa_closure =
  executable :: "('p, 'x, 'a, 't, 'c) executable"
  to_torch :: "'a \<Rightarrow> error + 't"
  params :: 'p
  init_cache :: 'c
  config_pad :: int

record 'x alpa_state =
  step_ct :: int
  runtime :: 'x

text \<open>
  The closure \<^verbatim>\<open>inference_func\<close>, statement by statement: the reset of the counter when
  there is no cache, the position ids, the call of the executable, the conversion of the
  logits, and only then \<^verbatim>\<open>step_ct += 1\<close>. An exception at any of them leaves the counter as
  the reset left it.
\<close>

definition alpa_inference_func ::
  "('p, 'x, 'a, 't, 'c) alpa_closure \<Rightarrow> ('x alpa_state, 't, 'c) inference_func" where
  "alpa_inference_func env input_ids past output_attentions output_hidden_states st =
     (let (past', step_ct0) =
            (case past of None \<Rightarrow> (init_cache env, 0) | Some c \<Rightarrow> (c, step_ct st));
          input_ids_step = input_ids
      in case full_like input_ids_step (step_ct0 + config_pad env + 1) of
           Inl e \<Rightarrow> (Inl e, \<lparr>step_ct = step_ct0, runtime = runtime st\<rparr>)
         | Inr position_ids_step \<Rightarrow>
             (case executable env (params env)
                     \<lparr>in_input_ids = input_ids_step, in_position_ids = position_ids_step,
                      in_cache = past'\<rparr> (runtime st) of
                (Inl e, x') \<Rightarrow> (Inl e, \<lparr>step_ct = step_ct0, runtime = x'\<rparr>)
              | (Inr output, x') \<Rightarrow>
                  (case to_torch env (out_logits output) of
                     Inl e \<Rightarrow> (Inl e, \<lparr>step_ct = step_ct0, runtime = x'\<rparr>)
                   | Inr logits_step \<Rightarrow>
                       (Inr \<lparr>logits = logits_step,
                             past_key_values = Some (attention_cache output),
                             hidden_states = out_hidden_states output,
                             attentions = out_attentions output\<rparr>,
                        \<lparr>step_ct = step_ct0 + 1, runtime = x'\<rparr>))))"



section \<open>The weight-decay mask of the training benchmark (\<^verbatim>\<open>examples/opt/opt.py\<close>)\<close>

text \<open>
  A parameter pytree: nested dictionaries with string keys and arrays at the leaves.
  Looking a dictionary up by key gives the first entry with that key.
\<close>

datatype 'a pytree = Leaf 'a | Dict "(string \<times> 'a pytree) list"

text \<open>\<^verbatim>\<open>jax.tree_map(f, pytree)\<close>: the same structure, \<^verbatim>\<open>f\<close> applied to every leaf.\<close>

fun tree_map :: "('a \<Rightarrow> 'b) \<Rightarrow> 'a pytree \<Rightarrow> 'b pytree" where
  "tree_map f (Leaf x) = Leaf (f x)"
| "tree_map f (Dict kvs) = Dict (map (\<lambda>kv. (fst kv, tree_map f (snd kv))) kvs)"

text \<open>
  \<^verbatim>\<open>weight_decay_mask(pytree)\<close>, defined with the same body inside \<^verbatim>\<open>create_train_state\<close>
  and inside \<^verbatim>\<open>create_train_state_aval\<close>.
\<close>

definition weight_decay_mask :: "'z array_scheme pytree \<Rightarrow> bool pytree" where
  "weight_decay_mask pytree = tree_map (\<lambda>x. ndim x > 1) pytree"

text \<open>The leaf of a pytree at a path of keys, when the path ends at a leaf.\<close>

fun tree_get :: "'a pytree \<Rightarrow> string list \<Rightarrow> 'a option" where
  "tree_get (Leaf x) [] = Some x"
| "tree_get (Leaf x) (k # ks) = None"
| "tree_get (Dict kvs) [] = None"
| "tree_get (Dict kvs) (k # ks) =
     (case map_of kvs k of None \<Rightarrow> None | Some t \<Rightarrow> tree_get t ks)"

section \<open>Sample collaborators and inputs\<close>

text \<open>
  A backend whose cache is the list of the columns it has been fed and whose logits are
  the columns of the current input; its state counts its invocations.
\<close>

definition echo_backend :: "(nat, int list list, int list list) inference_func" where
  "echo_backend input_ids past output_attentions output_hidden_states st =
     (Inr \<lparr>logits = cols input_ids,
           past_key_values = Some ((case past of None \<Rightarrow> [] | Some c \<Rightarrow> c) @ cols input_ids),
           hidden_states = None, attentions = None\<rparr>, Suc st)"

definition sample_prompt :: "int tensor2" where
  "sample_prompt = \<lparr>shape0 = 1, cols = [[5], [7], [9]]\<rparr>"

definition empty_prompt :: "int tensor2" where
  "empty_prompt = \<lparr>shape0 = 1, cols = []\<rparr>"

text \<open>
  An executable that never raises: its cache is the list of the columns it has been fed,
  its logits are the columns of the current input, and the runtime counts its calls. The
  closure around it has \<^verbatim>\<open>config.pad = 1\<close> and a conversion that never raises; a second
  closure logs the executable's inputs, and a third has \<^verbatim>\<open>config.pad = 2**63 - 1\<close>.
\<close>

definition sample_executable ::
  "(unit, nat, int list list, int list list, int list list) executable" where
  "sample_executable p inp x =
     (Inr \<lparr>out_logits = cols (in_input_ids inp),
           attention_cache = in_cache inp @ cols (in_input_ids inp),
           out_hidden_states = None, out_attentions = None\<rparr>, Suc x)"

definition sample_closure ::
  "(unit, nat, int list list, int list list, int list list) alpa_closure" where
  "sample_closure =
     \<lparr>executable = sample_executable, to_torch = Inr, params = (), init_cache = [],
      config_pad = 1\<rparr>"





text \<open>
  A one-layer causal LM that never raises: its cache holds a key and a value of shape
  \<^verbatim>\<open>batch x 1 x (past length + input length) x 1\<close>.
\<close>

definition sample_raw_model :: "(nat, int list list, array list list) raw_model" where
  "sample_raw_model input_ids attention_mask past output_attentions output_hidden_states x =
     (let n = (case past of
                 None \<Rightarrow> 0
               | Some pkv \<Rightarrow> (case past_length pkv of Inl e \<Rightarrow> 0 | Inr n \<Rightarrow> n));
          kv = \<lparr>shape = [shape0 input_ids, 1, n + shape1 input_ids, 1]\<rparr>
      in (Inr \<lparr>lm_logits = cols input_ids, lm_past_key_values = Some [[kv, kv]]\<rparr>, Suc x))"

definition sample_cache :: "array list list" where
  "sample_cache = [[\<lparr>shape = [1, 1, 3, 1]\<rparr>, \<lparr>shape = [1, 1, 3, 1]\<rparr>]]"

definition sample_token :: "int tensor2" where
  "sample_token = \<lparr>shape0 = 1, cols = [[11]]\<rparr>"

text \<open>A parameter pytree with a two-dimensional kernel and a one-dimensional bias.\<close>

definition sample_params :: "array pytree" where
  "sample_params =
     Dict [(''dense'', Dict [(''kernel'', Leaf \<lparr>shape = [4, 8]\<rparr>),
                            (''bias'', Leaf \<lparr>shape = [8]\<rparr>)])]"

section \<open>Auxiliary facts\<close>

subsection \<open>The loop of the adapter and its trace\<close>

lemma traced_apply:
  "traced f ids past oa oh (st, tr) =
     (case f ids past oa oh st of
        (r, st') \<Rightarrow> (r, (st', tr @ [\<lparr>inv_input_ids = ids, inv_past = past, inv_result = r\<rparr>])))"
  by (simp add: traced_def)

lemma loop_trace:
  "call_loop (traced f) ids oa oh js past ret (st, tr) = (res, (st', tr')) \<Longrightarrow>
   \<exists>new. tr' = tr @ new \<and> length new \<le> length js
     \<and> (\<forall>k<length new. inv_input_ids (new ! k) = slice_cols ids (js ! k) (js ! k + 1))
     \<and> (new \<noteq> [] \<longrightarrow> inv_past (new ! 0) = past)
     \<and> (\<forall>k. Suc k < length new \<longrightarrow> (\<exists>r. inv_result (new ! k) = Inr r \<and> inv_past (new ! Suc k) = past_key_values r))
     \<and> (case res of Inl e \<Rightarrow> new \<noteq> [] \<and> inv_result (last new) = Inl e
          | Inr ret' \<Rightarrow> length new = length js \<and> (if js = [] then ret' = ret else \<exists>r. ret' = Some r \<and> inv_result (last new) = Inr r))"
proof (induction js arbitrary: past ret st tr)
  case Nil
  then show ?case by auto
next
  case (Cons j js)
  obtain r0 st0 where f0: "f (slice_cols ids j (j + 1)) past oa oh st = (r0, st0)" by force
  let ?e = "\<lparr>inv_input_ids = slice_cols ids j (j + 1), inv_past = past, inv_result = r0\<rparr>"
  show ?case
  proof (cases r0)
    case (Inl e)
    with Cons.prems f0 have "res = Inl e" "tr' = tr @ [?e]" by (simp_all add: traced_apply)
    then show ?thesis using Inl by (intro exI[of _ "[?e]"]) simp
  next
    case (Inr r)
    with Cons.prems f0 have "call_loop (traced f) ids oa oh js (past_key_values r) (Some r) (st0, tr @ [?e]) = (res, (st', tr'))"
      by (simp add: traced_apply)
    from Cons.IH[OF this] obtain new where n: "tr' = (tr @ [?e]) @ new" "length new \<le> length js"
      "\<forall>k<length new. inv_input_ids (new ! k) = slice_cols ids (js ! k) (js ! k + 1)"
      "new \<noteq> [] \<longrightarrow> inv_past (new ! 0) = past_key_values r"
      "\<forall>k. Suc k < length new \<longrightarrow> (\<exists>r. inv_result (new ! k) = Inr r \<and> inv_past (new ! Suc k) = past_key_values r)"
      "case res of Inl e \<Rightarrow> new \<noteq> [] \<and> inv_result (last new) = Inl e
          | Inr ret' \<Rightarrow> length new = length js \<and> (if js = [] then ret' = Some r else \<exists>r. ret' = Some r \<and> inv_result (last new) = Inr r)"
      by blast
    show ?thesis
    proof (intro exI[of _ "?e # new"] conjI)
      show "tr' = tr @ ?e # new" using n(1) by simp
      show "length (?e # new) \<le> length (j # js)" using n(2) by simp
      show "\<forall>k<length (?e # new). inv_input_ids ((?e # new) ! k) = slice_cols ids ((j # js) ! k) ((j # js) ! k + 1)"
        using n(3) by (auto simp: nth_Cons split: nat.splits)
      show "?e # new \<noteq> [] \<longrightarrow> inv_past ((?e # new) ! 0) = past" by simp
      show "\<forall>k. Suc k < length (?e # new) \<longrightarrow> (\<exists>r. inv_result ((?e # new) ! k) = Inr r \<and> inv_past ((?e # new) ! Suc k) = past_key_values r)"
        using n(4,5) Inr by (auto simp: nth_Cons split: nat.splits)
      show "case res of Inl e \<Rightarrow> ?e # new \<noteq> [] \<and> inv_result (last (?e # new)) = Inl e
          | Inr ret' \<Rightarrow> length (?e # new) = length (j # js) \<and> (if j # js = [] then ret' = ret else \<exists>r. ret' = Some r \<and> inv_result (last (?e # new)) = Inr r)"
        using n(6) Inr by (auto split: sum.splits if_splits)
    qed
  qed
qed

lemma call_trace:
  assumes "call (init (traced f) cfg) ids past oa oh rd (st, []) = (res, (st', tr))"
  shows "length tr \<le> shape1 ids
     \<and> (\<forall>k<length tr. inv_input_ids (tr ! k) = slice_cols ids k (k + 1))
     \<and> (tr \<noteq> [] \<longrightarrow> inv_past (tr ! 0) = past)
     \<and> (\<forall>k. Suc k < length tr \<longrightarrow> (\<exists>r. inv_result (tr ! k) = Inr r \<and> inv_past (tr ! Suc k) = past_key_values r))
     \<and> (case res of Inl e \<Rightarrow> (tr = [] \<and> shape1 ids = 0 \<and> e = UnboundLocalError) \<or> (tr \<noteq> [] \<and> inv_result (last tr) = Inl e)
          | Inr r \<Rightarrow> length tr = shape1 ids \<and> tr \<noteq> [] \<and> inv_result (last tr) = Inr r)"
proof -
  obtain res0 st0 tr0 where l: "call_loop (traced f) ids oa oh [0..<shape1 ids] past None (st, []) = (res0, (st0, tr0))"
    by (metis prod.exhaust)
  from loop_trace[OF l] obtain new where n: "tr0 = new" "length new \<le> shape1 ids"
      "\<forall>k<length new. inv_input_ids (new ! k) = slice_cols ids ([0..<shape1 ids] ! k) ([0..<shape1 ids] ! k + 1)"
      "new \<noteq> [] \<longrightarrow> inv_past (new ! 0) = past"
      "\<forall>k. Suc k < length new \<longrightarrow> (\<exists>r. inv_result (new ! k) = Inr r \<and> inv_past (new ! Suc k) = past_key_values r)"
      "case res0 of Inl e \<Rightarrow> new \<noteq> [] \<and> inv_result (last new) = Inl e
          | Inr ret' \<Rightarrow> length new = length [0..<shape1 ids] \<and> (if [0..<shape1 ids] = [] then ret' = None else \<exists>r. ret' = Some r \<and> inv_result (last new) = Inr r)"
    by auto
  have st: "st' = st0" "tr = tr0" using assms l by (auto simp: call_def init_def split: sum.splits option.splits)
  have r: "res = (case res0 of Inl e \<Rightarrow> Inl e | Inr None \<Rightarrow> Inl UnboundLocalError | Inr (Some r) \<Rightarrow> Inr r)"
    using assms l by (auto simp: call_def init_def split: sum.splits option.splits)
  have a: "\<forall>k<length tr. inv_input_ids (tr ! k) = slice_cols ids k (k + 1)"
    using n(2,3) st n(1) by auto
  show ?thesis using n(2,4,5,6) a st n(1) r
    by (auto split: sum.splits option.splits if_splits)
qed

lemma slice_one: "i < shape1 t \<Longrightarrow> slice_cols t i (Suc i) = \<lparr>shape0 = shape0 t, cols = [cols t ! i]\<rparr>"
  by (simp add: slice_cols_def shape1_def take_Suc_conv_app_nth[of 0] Cons_nth_drop_Suc[symmetric])

text \<open>The wrapper that records invocations changes neither results nor state.\<close>

lemma call_loop_traced:
  "call_loop (traced f) ids oa oh js past ret (st, tr) = (res, (st', tr')) \<Longrightarrow>
   call_loop f ids oa oh js past ret st = (res, st')"
proof (induction js arbitrary: past ret st tr)
  case Nil
  then show ?case by simp
next
  case (Cons j js)
  obtain r0 st0 where f0: "f (slice_cols ids j (j + 1)) past oa oh st = (r0, st0)" by force
  show ?case
  proof (cases r0)
    case (Inl e)
    with Cons.prems f0 show ?thesis by (simp add: traced_apply)
  next
    case (Inr r)
    with Cons.prems f0 Cons.IH show ?thesis by (simp add: traced_apply)
  qed
qed

lemma call_traced:
  "call (init (traced f) cfg) ids past oa oh rd (st, tr) = (res, (st', tr')) \<Longrightarrow>
   call (init f cfg) ids past oa oh rd st = (res, st')"
proof -
  assume a: "call (init (traced f) cfg) ids past oa oh rd (st, tr) = (res, (st', tr'))"
  obtain res0 st0 tr0 where l: "call_loop (traced f) ids oa oh [0..<shape1 ids] past None (st, tr) = (res0, (st0, tr0))"
    by (metis prod.exhaust)
  note call_loop_traced[OF l]
  with a l show ?thesis by (auto simp: call_def init_def split: sum.splits option.splits)
qed

text \<open>
  When the inference function never raises, the loop runs to its end and, on an input
  with at least one position, the call returns.
\<close>

lemma call_loop_returns:
  assumes "\<forall>ids past oa oh st. \<exists>r st'. f ids past oa oh st = (Inr r, st')"
  shows "\<exists>ret' st'. call_loop f ids oa oh js past ret st = (Inr ret', st') \<and> (js \<noteq> [] \<longrightarrow> ret' \<noteq> None)"
proof (induction js arbitrary: past ret st)
  case Nil
  then show ?case by simp
next
  case (Cons j js)
  obtain r st0 where f0: "f (slice_cols ids j (j + 1)) past oa oh st = (Inr r, st0)"
    using assms by blast
  from Cons.IH[of "past_key_values r" "Some r" st0] obtain ret' st' where
    l: "call_loop f ids oa oh js (past_key_values r) (Some r) st0 = (Inr ret', st')" "js \<noteq> [] \<longrightarrow> ret' \<noteq> None"
    by blast
  have "ret' \<noteq> None" using l by (cases js) auto
  then show ?case using f0 l by simp
qed

lemma call_returns:
  assumes "\<forall>ids past oa oh st. \<exists>r st'. f ids past oa oh st = (Inr r, st')"
    and "1 \<le> shape1 input_ids"
  shows "\<exists>ret st'. call (init f cfg) input_ids past oa oh rd st = (Inr ret, st')"
proof -
  from call_loop_returns[OF assms(1), of input_ids oa oh "[0..<shape1 input_ids]" past None st]
  obtain ret' st' where l: "call_loop f input_ids oa oh [0..<shape1 input_ids] past None st = (Inr ret', st')"
    "[0..<shape1 input_ids] \<noteq> [] \<longrightarrow> ret' \<noteq> None" by blast
  have "ret' \<noteq> None" using l(2) assms(2) by simp
  then obtain r where "ret' = Some r" by auto
  then show ?thesis using l(1) by (simp add: call_def init_def)
qed

subsection \<open>The HuggingFace causal-LM backend\<close>

lemma logged_model_apply:
  "logged_model m ids am past oa oh (x, calls) =
     (case m ids am past oa oh x of
        (r, x') \<Rightarrow> (r, (x', calls @ [\<lparr>call_input_ids = ids, call_attention_mask = am, call_past = past\<rparr>])))"
  by (simp add: logged_model_def)

lemma ones_shape:
  "shape0 (ones b n) = b \<and> shape1 (ones b n) = n \<and> cols (ones b n) = replicate n (replicate b 1)"
  by (simp add: ones_def shape1_def)

subsection \<open>The distributed-executable backend\<close>



lemma alpa_apply:
  "alpa_inference_func env ids past oa oh st =
     (case full_like ids ((case past of None \<Rightarrow> 0 | Some c \<Rightarrow> step_ct st) + config_pad env + 1) of
        Inl e \<Rightarrow> (Inl e, \<lparr>step_ct = (case past of None \<Rightarrow> 0 | Some c \<Rightarrow> step_ct st), runtime = runtime st\<rparr>)
      | Inr pos \<Rightarrow>
          (case executable env (params env)
                  \<lparr>in_input_ids = ids, in_position_ids = pos,
                   in_cache = (case past of None \<Rightarrow> init_cache env | Some c \<Rightarrow> c)\<rparr> (runtime st) of
             (Inl e, x') \<Rightarrow> (Inl e, \<lparr>step_ct = (case past of None \<Rightarrow> 0 | Some c \<Rightarrow> step_ct st), runtime = x'\<rparr>)
           | (Inr output, x') \<Rightarrow>
               (case to_torch env (out_logits output) of
                  Inl e \<Rightarrow> (Inl e, \<lparr>step_ct = (case past of None \<Rightarrow> 0 | Some c \<Rightarrow> step_ct st), runtime = x'\<rparr>)
                | Inr logits_step \<Rightarrow>
                    (Inr \<lparr>logits = logits_step, past_key_values = Some (attention_cache output),
                          hidden_states = out_hidden_states output, attentions = out_attentions output\<rparr>,
                     \<lparr>step_ct = (case past of None \<Rightarrow> 0 | Some c \<Rightarrow> step_ct st) + 1, runtime = x'\<rparr>))))"
  by (simp add: alpa_inference_func_def split: option.splits)


lemma alpa_step:
  assumes "alpa_inference_func env ids past oa oh st = (Inr r, st')"
  shows "step_ct st' = (case past of None \<Rightarrow> 0 | Some c \<Rightarrow> step_ct st) + 1 \<and> past_key_values r \<noteq> None"
  using assms by (auto simp: alpa_apply split: prod.splits sum.splits)



lemma alpa_loop_step_ct:
  "call_loop (alpa_inference_func env) ids oa oh js past ret st = (Inr ret', st') \<Longrightarrow>
   (if js = [] then step_ct st' = step_ct st \<and> ret' = ret
    else step_ct st' = (case past of None \<Rightarrow> 0 | Some c \<Rightarrow> step_ct st) + int (length js)
       \<and> (\<exists>r. ret' = Some r \<and> past_key_values r \<noteq> None))"
proof (induction js arbitrary: past ret st)
  case Nil
  then show ?case by simp
next
  case (Cons j js)
  obtain r0 st0 where f0: "alpa_inference_func env (slice_cols ids j (j + 1)) past oa oh st = (r0, st0)"
    by force
  show ?case
  proof (cases r0)
    case (Inl e)
    with Cons.prems f0 show ?thesis by simp
  next
    case (Inr r)
    with f0 have s: "step_ct st0 = (case past of None \<Rightarrow> 0 | Some c \<Rightarrow> step_ct st) + 1" "past_key_values r \<noteq> None"
      using alpa_step by blast+
    from Cons.prems f0 Inr
    have "call_loop (alpa_inference_func env) ids oa oh js (past_key_values r) (Some r) st0 = (Inr ret', st')"
      by simp
    from Cons.IH[OF this] s show ?thesis by (auto split: if_splits)
  qed
qed




subsection \<open>Pytrees\<close>

lemma tree_get_tree_map:
  "tree_get (tree_map f t) path = map_option f (tree_get t path)"
proof (induction t path rule: tree_get.induct)
  case (4 kvs k ks)
  have m: "map_of (map (\<lambda>kv. (fst kv, tree_map f (snd kv))) kvs) k = map_option (tree_map f) (map_of kvs k)"
    by (induction kvs) auto
  show ?case
  proof (cases "map_of kvs k")
    case None
    then show ?thesis using m by simp
  next
    case (Some t)
    then show ?thesis using m 4 by simp
  qed
qed simp_all

subsection \<open>The samples, evaluated\<close>

lemma call_traced_echo_sample:
  "call (init (traced echo_backend) ()) sample_prompt None None None None (0, [])
     = (Inr \<lparr>logits = [[9]], past_key_values = Some [[5], [7], [9]], hidden_states = None, attentions = None\<rparr>,
        (3,
         [\<lparr>inv_input_ids = \<lparr>shape0 = 1, cols = [[5]]\<rparr>, inv_past = None,
           inv_result = Inr \<lparr>logits = [[5]], past_key_values = Some [[5]], hidden_states = None, attentions = None\<rparr>\<rparr>,
          \<lparr>inv_input_ids = \<lparr>shape0 = 1, cols = [[7]]\<rparr>, inv_past = Some [[5]],
           inv_result = Inr \<lparr>logits = [[7]], past_key_values = Some [[5], [7]], hidden_states = None, attentions = None\<rparr>\<rparr>,
          \<lparr>inv_input_ids = \<lparr>shape0 = 1, cols = [[9]]\<rparr>, inv_past = Some [[5], [7]],
           inv_result = Inr \<lparr>logits = [[9]], past_key_values = Some [[5], [7], [9]], hidden_states = None, attentions = None\<rparr>\<rparr>]))"
  by (simp add: call_def init_def traced_apply echo_backend_def slice_cols_def shape1_def sample_prompt_def upt_rec)

lemma call_traced_echo_sample_cached:
  "call (init (traced echo_backend) ()) sample_prompt (Some [[3]]) None None None (0, [])
     = (Inr \<lparr>logits = [[9]], past_key_values = Some [[3], [5], [7], [9]], hidden_states = None, attentions = None\<rparr>,
        (3,
         [\<lparr>inv_input_ids = \<lparr>shape0 = 1, cols = [[5]]\<rparr>, inv_past = Some [[3]],
           inv_result = Inr \<lparr>logits = [[5]], past_key_values = Some [[3], [5]], hidden_states = None, attentions = None\<rparr>\<rparr>,
          \<lparr>inv_input_ids = \<lparr>shape0 = 1, cols = [[7]]\<rparr>, inv_past = Some [[3], [5]],
           inv_result = Inr \<lparr>logits = [[7]], past_key_values = Some [[3], [5], [7]], hidden_states = None, attentions = None\<rparr>\<rparr>,
          \<lparr>inv_input_ids = \<lparr>shape0 = 1, cols = [[9]]\<rparr>, inv_past = Some [[3], [5], [7]],
           inv_result = Inr \<lparr>logits = [[9]], past_key_values = Some [[3], [5], [7], [9]], hidden_states = None, attentions = None\<rparr>\<rparr>]))"
  by (simp add: call_def init_def traced_apply echo_backend_def slice_cols_def shape1_def sample_prompt_def upt_rec)

lemma opt_sample_token: "opt_inference_func (logged_model sample_raw_model) sample_token (Some sample_cache) None None (0, [])
   = (Inr \<lparr>logits = [[11]], past_key_values = Some [[\<lparr>shape = [1, 1, 4, 1]\<rparr>, \<lparr>shape = [1, 1, 4, 1]\<rparr>]], hidden_states = None, attentions = None\<rparr>,
      (1, [\<lparr>call_input_ids = sample_token, call_attention_mask = Some (ones 1 4), call_past = Some sample_cache\<rparr>]))"
  by (simp add: opt_inference_func_def logged_model_apply sample_raw_model_def Let_def past_length_def sample_cache_def sample_token_def shape1_def)

lemma opt_sample_prompt: "opt_inference_func (logged_model sample_raw_model) sample_prompt None None None (0, [])
   = (Inr \<lparr>logits = [[5], [7], [9]], past_key_values = Some [[\<lparr>shape = [1, 1, 3, 1]\<rparr>, \<lparr>shape = [1, 1, 3, 1]\<rparr>]], hidden_states = None, attentions = None\<rparr>,
      (1, [\<lparr>call_input_ids = sample_prompt, call_attention_mask = None, call_past = None\<rparr>]))"
  by (simp add: opt_inference_func_def logged_model_apply sample_raw_model_def Let_def sample_prompt_def shape1_def)




lemma call_alpa_sample:
  "call (init (alpa_inference_func sample_closure) ()) sample_prompt None None None None \<lparr>step_ct = 7, runtime = 0\<rparr>
   = (Inr \<lparr>logits = [[9]], past_key_values = Some [[5], [7], [9]], hidden_states = None, attentions = None\<rparr>,
      \<lparr>step_ct = 3, runtime = 3\<rparr>)"
  by (simp add: call_def init_def alpa_apply sample_closure_def sample_executable_def slice_cols_def
      full_like_def int64_cast_def shape1_def sample_prompt_def upt_rec)

lemma call_traced_alpa_sample:
  "call (init (traced (alpa_inference_func sample_closure)) ()) sample_prompt None None None None
     (\<lparr>step_ct = 7, runtime = 0\<rparr>, [])
   = (Inr \<lparr>logits = [[9]], past_key_values = Some [[5], [7], [9]], hidden_states = None, attentions = None\<rparr>,
      (\<lparr>step_ct = 3, runtime = 3\<rparr>,
       [\<lparr>inv_input_ids = \<lparr>shape0 = 1, cols = [[5]]\<rparr>, inv_past = None,
         inv_result = Inr \<lparr>logits = [[5]], past_key_values = Some [[5]], hidden_states = None, attentions = None\<rparr>\<rparr>,
        \<lparr>inv_input_ids = \<lparr>shape0 = 1, cols = [[7]]\<rparr>, inv_past = Some [[5]],
         inv_result = Inr \<lparr>logits = [[7]], past_key_values = Some [[5], [7]], hidden_states = None, attentions = None\<rparr>\<rparr>,
        \<lparr>inv_input_ids = \<lparr>shape0 = 1, cols = [[9]]\<rparr>, inv_past = Some [[5], [7]],
         inv_result = Inr \<lparr>logits = [[9]], past_key_values = Some [[5], [7], [9]], hidden_states = None, attentions = None\<rparr>\<rparr>]))"
  by (simp add: call_def init_def traced_apply alpa_apply sample_closure_def sample_executable_def slice_cols_def
      full_like_def int64_cast_def shape1_def sample_prompt_def upt_rec)

lemma alpa_sample_token:
  "alpa_inference_func sample_closure sample_token (Some [[5], [7], [9]]) None None \<lparr>step_ct = 3, runtime = 3\<rparr>
   = (Inr \<lparr>logits = [[11]], past_key_values = Some [[5], [7], [9], [11]], hidden_states = None, attentions = None\<rparr>,
      \<lparr>step_ct = 4, runtime = 4\<rparr>)"
  by (simp add: alpa_apply sample_closure_def sample_executable_def full_like_def int64_cast_def sample_token_def)

lemma call_alpa_sample_token:
  "call (init (alpa_inference_func sample_closure) ()) sample_token (Some [[5], [7], [9]]) None None None \<lparr>step_ct = 3, runtime = 3\<rparr>
   = (Inr \<lparr>logits = [[11]], past_key_values = Some [[5], [7], [9], [11]], hidden_states = None, attentions = None\<rparr>,
      \<lparr>step_ct = 4, runtime = 4\<rparr>)"
  by (simp add: call_def init_def alpa_apply sample_closure_def sample_executable_def slice_cols_def
      full_like_def int64_cast_def shape1_def sample_token_def upt_rec)

section \<open>Results\<close>

text \<open>
  C1. A prompt of length N (at least 1) is given to the adapter's call with no cache. If
  none of the invocations the adapter makes of the inference function raises, it makes
  exactly N of them; the i-th receives exactly the single column at position i of the
  prompt, the first receives no cache, each later one receives the cache the invocation
  before it returned, and the call returns. (An invocation that raises ends the call
  there, with its exception.)
\<close>

theorem call_invokes_backend_once_per_position:
  assumes "1 \<le> shape1 input_ids"
    and "call (init (traced f) cfg) input_ids None oa oh rd (st, []) = (res, (st', tr))"
    and "\<forall>e\<in>set tr. \<exists>r. inv_result e = Inr r"
  shows "length tr = shape1 input_ids
     \<and> (\<forall>i<shape1 input_ids. inv_input_ids (tr ! i) = \<lparr>shape0 = shape0 input_ids, cols = [cols input_ids ! i]\<rparr>)
     \<and> inv_past (tr ! 0) = None
     \<and> (\<forall>i r. Suc i < shape1 input_ids \<and> inv_result (tr ! i) = Inr r \<longrightarrow> inv_past (tr ! Suc i) = past_key_values r)
     \<and> (\<exists>ret. res = Inr ret)"
proof -
  note t = call_trace[OF assms(2)]
  have ne: "tr \<noteq> []" using t assms(1) by (auto split: sum.splits)
  then have "last tr \<in> set tr" by simp
  then obtain r where "inv_result (last tr) = Inr r" using assms(3) by blast
  then obtain ret where res: "res = Inr ret" using t ne by (cases res) auto
  then have len: "length tr = shape1 input_ids" using t by simp
  show ?thesis using t len res ne by (auto simp: slice_one)
qed

text \<open>
  C1 on the sample prompt of three positions with the echo backend: three invocations,
  one per column, the caches chained.
\<close>

theorem call_invokes_backend_once_per_position_witness:
  "1 \<le> shape1 sample_prompt
   \<and> length (snd (snd (call (init (traced echo_backend) ()) sample_prompt None None None None (0, [])))) = 3
   \<and> map inv_input_ids (snd (snd (call (init (traced echo_backend) ()) sample_prompt None None None None (0, []))))
       = [\<lparr>shape0 = 1, cols = [[5]]\<rparr>, \<lparr>shape0 = 1, cols = [[7]]\<rparr>, \<lparr>shape0 = 1, cols = [[9]]\<rparr>]
   \<and> map inv_past (snd (snd (call (init (traced echo_backend) ()) sample_prompt None None None None (0, []))))
       = [None, Some [[5]], Some [[5], [7]]]"
proof -
  have h1: "1 \<le> shape1 sample_prompt" by (simp add: shape1_def sample_prompt_def)
  have h3: "\<forall>e\<in>set (snd (snd (call (init (traced echo_backend) ()) sample_prompt None None None None
                              (0, [])))). \<exists>r. inv_result e = Inr r"
    by (simp add: call_traced_echo_sample)
  have eq: "call (init (traced echo_backend) ()) sample_prompt None None None None (0, [])
      = (fst (call (init (traced echo_backend) ()) sample_prompt None None None None (0, [])),
         (fst (snd (call (init (traced echo_backend) ()) sample_prompt None None None None (0, []))),
          snd (snd (call (init (traced echo_backend) ()) sample_prompt None None None None (0, [])))))"
    by simp
  show ?thesis
    using h1 call_invokes_backend_once_per_position [OF h1 eq h3]
    by (simp add: call_traced_echo_sample)
qed

text \<open>
  C2. For every input with at least one position, whatever the cache given, the outcome of
  the adapter's call is the outcome of the last invocation it made of the inference
  function: the outputs of earlier invocations are dropped. When the call returns, that
  invocation is the one for the last position of the input.
\<close>

theorem call_returns_last_invocation_output:
  assumes "1 \<le> shape1 input_ids"
    and "call (init (traced f) cfg) input_ids past oa oh rd (st, []) = (res, (st', tr))"
  shows "tr \<noteq> [] \<and> res = inv_result (last tr)
     \<and> (\<forall>ret. res = Inr ret \<longrightarrow>
           length tr = shape1 input_ids
         \<and> inv_input_ids (last tr) = \<lparr>shape0 = shape0 input_ids, cols = [last (cols input_ids)]\<rparr>)"
proof -
  note t = call_trace[OF assms(2)]
  have ne: "tr \<noteq> []" using t assms(1) by (auto split: sum.splits)
  have r: "res = inv_result (last tr)" using t ne by (cases res) auto
  have "length tr = shape1 input_ids \<and> inv_input_ids (last tr) = \<lparr>shape0 = shape0 input_ids, cols = [last (cols input_ids)]\<rparr>"
    if "res = Inr ret" for ret
  proof -
    have len: "length tr = shape1 input_ids" using t that by simp
    then have "last tr = tr ! (shape1 input_ids - 1)" using ne by (simp add: last_conv_nth)
    moreover have "shape1 input_ids - 1 < length tr" using len assms(1) by simp
    ultimately have "inv_input_ids (last tr) = slice_cols input_ids (shape1 input_ids - 1) (Suc (shape1 input_ids - 1))"
      using t by simp
    also have "\<dots> = \<lparr>shape0 = shape0 input_ids, cols = [cols input_ids ! (shape1 input_ids - 1)]\<rparr>"
      using assms(1) by (intro slice_one) simp
    also have "cols input_ids ! (shape1 input_ids - 1) = last (cols input_ids)"
      using assms(1) by (cases "cols input_ids = []") (simp_all add: shape1_def last_conv_nth)
    finally show ?thesis using len by simp
  qed
  then show ?thesis using ne r by blast
qed

text \<open>
  C2 on the sample prompt with a cache given: the call returns what the third invocation
  returned, and that invocation was fed the last column.
\<close>

theorem call_returns_last_invocation_output_witness:
  "1 \<le> shape1 sample_prompt
   \<and> fst (call (init (traced echo_backend) ()) sample_prompt (Some [[3]]) None None None (0, []))
       = Inr \<lparr>logits = [[9]], past_key_values = Some [[3], [5], [7], [9]], hidden_states = None, attentions = None\<rparr>
   \<and> inv_result (last (snd (snd (call (init (traced echo_backend) ()) sample_prompt (Some [[3]]) None None None (0, [])))))
       = Inr \<lparr>logits = [[9]], past_key_values = Some [[3], [5], [7], [9]], hidden_states = None, attentions = None\<rparr>
   \<and> inv_input_ids (last (snd (snd (call (init (traced echo_backend) ()) sample_prompt (Some [[3]]) None None None (0, [])))))
       = \<lparr>shape0 = 1, cols = [[9]]\<rparr>"
proof -
  have h1: "1 \<le> shape1 sample_prompt" by (simp add: shape1_def sample_prompt_def)
  show ?thesis
    using h1 call_returns_last_invocation_output [OF h1 call_traced_echo_sample_cached]
    by (simp add: call_traced_echo_sample_cached)
qed




text \<open>
  C4. With the distributed-executable backend, when the adapter's call on a prompt of
  length N with no cache returns, the step counter is N, whatever it was before, and the
  cache it returns is not \<^verbatim>\<open>None\<close>. Each later single-token invocation with a cache that
  returns, made directly or through the adapter's call, increases the counter by exactly 1.
  The call on a prompt of at least one position does return, with the counter at N, in
  every run in which none of the invocations it makes raises.
\<close>

theorem alpa_step_counter_counts_tokens:
  "(call (init (alpa_inference_func env) cfg) input_ids None oa oh rd st = (Inr ret, st1) \<longrightarrow>
      step_ct st1 = int (shape1 input_ids) \<and> past_key_values ret \<noteq> None)
   \<and> (alpa_inference_func env ids (Some c) oa' oh' s = (Inr r, s') \<longrightarrow> step_ct s' = step_ct s + 1)
   \<and> (shape1 ids = 1 \<and> call (init (alpa_inference_func env) cfg) ids (Some c) oa' oh' rd' s = (Inr r', s'') \<longrightarrow>
        step_ct s'' = step_ct s + 1)
   \<and> (1 \<le> shape1 input_ids
        \<and> call (init (traced (alpa_inference_func env)) cfg) input_ids None oa oh rd (st, []) = (res, (st2, tr))
        \<and> (\<forall>e\<in>set tr. \<exists>r. inv_result e = Inr r) \<longrightarrow>
        (\<exists>ret. res = Inr ret) \<and> step_ct st2 = int (shape1 input_ids))"
proof (intro conjI impI)
  assume a: "call (init (alpa_inference_func env) cfg) input_ids None oa oh rd st = (Inr ret, st1)"
  then obtain ret' where l: "call_loop (alpa_inference_func env) input_ids oa oh [0..<shape1 input_ids] None None st = (Inr ret', st1)"
    and r: "ret' = Some ret"
    by (auto simp: call_def init_def split: prod.splits sum.splits option.splits)
  from alpa_loop_step_ct[OF l] r
  show "step_ct st1 = int (shape1 input_ids)" "past_key_values ret \<noteq> None"
    by (auto split: if_splits)
next
  assume "alpa_inference_func env ids (Some c) oa' oh' s = (Inr r, s')"
  from alpa_step[OF this] show "step_ct s' = step_ct s + 1" by simp
next
  assume a: "shape1 ids = 1 \<and> call (init (alpa_inference_func env) cfg) ids (Some c) oa' oh' rd' s = (Inr r', s'')"
  then obtain ret' where l: "call_loop (alpa_inference_func env) ids oa' oh' [0..<shape1 ids] (Some c) None s = (Inr ret', s'')"
    by (auto simp: call_def init_def split: prod.splits sum.splits option.splits)
  from alpa_loop_step_ct[OF l] a show "step_ct s'' = step_ct s + 1"
    by (auto split: if_splits)
next
  assume a: "1 \<le> shape1 input_ids
        \<and> call (init (traced (alpa_inference_func env)) cfg) input_ids None oa oh rd (st, []) = (res, (st2, tr))
        \<and> (\<forall>e\<in>set tr. \<exists>r. inv_result e = Inr r)"
  then have c: "call (init (traced (alpa_inference_func env)) cfg) input_ids None oa oh rd (st, []) = (res, (st2, tr))"
    by simp
  note t = call_trace[OF c]
  have ne: "tr \<noteq> []" using t a by (auto split: sum.splits)
  then have "last tr \<in> set tr" by simp
  then obtain r where "inv_result (last tr) = Inr r" using a by blast
  then obtain ret where res: "res = Inr ret" using t ne by (cases res) auto
  then show "\<exists>ret. res = Inr ret" by simp
  from call_traced[OF c] res
  have u: "call (init (alpa_inference_func env) cfg) input_ids None oa oh rd st = (Inr ret, st2)" by simp
  then obtain ret' where l: "call_loop (alpa_inference_func env) input_ids oa oh [0..<shape1 input_ids] None None st = (Inr ret', st2)"
    and r: "ret' = Some ret"
    by (auto simp: call_def init_def split: prod.splits sum.splits option.splits)
  from alpa_loop_step_ct[OF l] r show "step_ct st2 = int (shape1 input_ids)"
    by (auto split: if_splits)
qed

text \<open>
  C4 on the sample closure: the counter goes from 7 to 3 over a prompt of three positions
  and from 3 to 4 over one more token.
\<close>

theorem alpa_step_counter_counts_tokens_witness:
  "step_ct (snd (call (init (alpa_inference_func sample_closure) ()) sample_prompt None None None None
                  \<lparr>step_ct = 7, runtime = 0\<rparr>)) = 3
   \<and> shape1 sample_prompt = 3
   \<and> step_ct (snd (alpa_inference_func sample_closure sample_token (Some [[5], [7], [9]]) None None
                  \<lparr>step_ct = 3, runtime = 3\<rparr>)) = 3 + 1
   \<and> shape1 sample_token = 1
   \<and> step_ct (snd (call (init (alpa_inference_func sample_closure) ()) sample_token (Some [[5], [7], [9]])
                  None None None \<lparr>step_ct = 3, runtime = 3\<rparr>)) = 3 + 1
   \<and> step_ct (fst (snd (call (init (traced (alpa_inference_func sample_closure)) ()) sample_prompt None
                  None None None (\<lparr>step_ct = 7, runtime = 0\<rparr>, [])))) = 3"
proof -
  have n: "shape1 sample_prompt = 3" "shape1 sample_token = 1"
    by (simp_all add: shape1_def sample_prompt_def sample_token_def)
  have h: "\<forall>e\<in>set (snd (snd (call (init (traced (alpa_inference_func sample_closure)) ()) sample_prompt None
                  None None None (\<lparr>step_ct = 7, runtime = 0\<rparr>, [])))). \<exists>r. inv_result e = Inr r"
    by (simp add: call_traced_alpa_sample)
  show ?thesis
    using n h call_alpa_sample alpa_sample_token call_alpa_sample_token
      alpa_step_counter_counts_tokens [where env = sample_closure and cfg = "()" and input_ids = sample_prompt and oa = None
            and oh = None and rd = None and st = "\<lparr>step_ct = 7, runtime = 0\<rparr>"
            and ret = "\<lparr>logits = [[9]], past_key_values = Some [[5], [7], [9]], hidden_states = None, attentions = None\<rparr>"
            and ?st1.0 = "\<lparr>step_ct = 3, runtime = 3\<rparr>" and ids = sample_token and c = "[[5], [7], [9]]"
            and oa' = None and oh' = None and s = "\<lparr>step_ct = 3, runtime = 3\<rparr>"
            and r = "\<lparr>logits = [[11]], past_key_values = Some [[5], [7], [9], [11]], hidden_states = None, attentions = None\<rparr>"
            and s' = "\<lparr>step_ct = 4, runtime = 4\<rparr>" and rd' = None
            and r' = "\<lparr>logits = [[11]], past_key_values = Some [[5], [7], [9], [11]], hidden_states = None, attentions = None\<rparr>"
            and s'' = "\<lparr>step_ct = 4, runtime = 4\<rparr>"
            and res = "fst (call (init (traced (alpa_inference_func sample_closure)) ()) sample_prompt None
                  None None None (\<lparr>step_ct = 7, runtime = 0\<rparr>, []))"
            and ?st2.0 = "fst (snd (call (init (traced (alpa_inference_func sample_closure)) ()) sample_prompt None
                  None None None (\<lparr>step_ct = 7, runtime = 0\<rparr>, [])))"
            and tr = "snd (snd (call (init (traced (alpa_inference_func sample_closure)) ()) sample_prompt None
                  None None None (\<lparr>step_ct = 7, runtime = 0\<rparr>, [])))"]
    by (simp add: call_traced_alpa_sample)
qed

text \<open>
  C5. For every parameter tensor of the pytree, at whatever path it lies, the weight-decay
  mask holds at the same path the truth value of "the tensor has more than one dimension":
  false for a tensor with exactly 1 dimension, true for a tensor with more than 1.
\<close>

theorem weight_decay_mask_by_ndim:
  "tree_get pytree path = Some x \<Longrightarrow>
     tree_get (weight_decay_mask pytree) path = Some (1 < ndim x)
   \<and> (ndim x = 1 \<longrightarrow> tree_get (weight_decay_mask pytree) path = Some False)
   \<and> (1 < ndim x \<longrightarrow> tree_get (weight_decay_mask pytree) path = Some True)"
  by (simp add: weight_decay_mask_def tree_get_tree_map)

text \<open>
  C5 on the sample parameters: the two-dimensional kernel is included, the
  one-dimensional bias is not.
\<close>

theorem weight_decay_mask_by_ndim_witness:
  "tree_get sample_params [''dense'', ''kernel''] = Some \<lparr>shape = [4, 8]\<rparr>
   \<and> tree_get (weight_decay_mask sample_params) [''dense'', ''kernel''] = Some True
   \<and> tree_get sample_params [''dense'', ''bias''] = Some \<lparr>shape = [8]\<rparr>
   \<and> tree_get (weight_decay_mask sample_params) [''dense'', ''bias''] = Some False"
proof -
  have k: "tree_get sample_params [''dense'', ''kernel''] = Some \<lparr>shape = [4, 8]\<rparr>"
    by (simp add: sample_params_def)
  have b: "tree_get sample_params [''dense'', ''bias''] = Some \<lparr>shape = [8]\<rparr>"
    by (simp add: sample_params_def)
  show ?thesis
    using k b weight_decay_mask_by_ndim [OF k] weight_decay_mask_by_ndim [OF b]
    by (simp add: ndim_def)
qed

text \<open>
  C6, as stated, fails at a step that has no cache, which is the first step of every
  generation: the model is then given no mask at all (\<^verbatim>\<open>None\<close>), not a tensor of ones.
\<close>

theorem opt_attention_mask_first_step_counterexample:
  "map call_attention_mask
     (snd (snd (opt_inference_func (logged_model sample_raw_model) sample_prompt None None None (0, []))))
   = [None]"
  by (simp add: opt_inference_func_def logged_model_apply sample_raw_model_def Let_def)

text \<open>
  C6, amended. For the HuggingFace causal-LM backend, at every step that is given a cache
  whose first tensor of the first layer has at least three dimensions, the mask given to
  the model is the tensor of shape batch x (cache length + 1) whose every entry is 1, the
  cache length being dimension 2 of that tensor; at a step with no cache the model is
  given no mask (\<^verbatim>\<open>None\<close>). When the cache length cannot be read of the cache, the
  \<^verbatim>\<open>IndexError\<close> ends the step before the model is called.
\<close>

theorem opt_attention_mask_from_cache:
  assumes "opt_inference_func (logged_model m) input_ids past oa oh (x, []) = (res, (x', calls))"
  shows "(past = None \<longrightarrow> map call_attention_mask calls = [None])
     \<and> (\<forall>pkv n. past = Some pkv \<and> past_length pkv = Inr n \<longrightarrow>
          (\<exists>am. map call_attention_mask calls = [Some am]
             \<and> shape0 am = shape0 input_ids \<and> shape1 am = n + 1
             \<and> cols am = replicate (n + 1) (replicate (shape0 input_ids) 1)))
     \<and> (\<forall>pkv e. past = Some pkv \<and> past_length pkv = Inl e \<longrightarrow> calls = [] \<and> res = Inl e)"
  using assms
  by (auto simp: opt_inference_func_def logged_model_apply ones_shape split: prod.splits sum.splits option.splits)

text \<open>
  C6, amended, on the sample model: a cache of length 3 gives a mask of shape 1 x 4, and
  no cache gives no mask.
\<close>

theorem opt_attention_mask_from_cache_witness:
  "past_length sample_cache = Inr 3
   \<and> map call_attention_mask
       (snd (snd (opt_inference_func (logged_model sample_raw_model) sample_token (Some sample_cache) None None (0, []))))
     = [Some \<lparr>shape0 = 1, cols = [[1], [1], [1], [1]]\<rparr>]
   \<and> map call_attention_mask
       (snd (snd (opt_inference_func (logged_model sample_raw_model) sample_prompt None None None (0, []))))
     = [None]"
proof -
  have pl: "past_length sample_cache = Inr 3" by (simp add: past_length_def sample_cache_def)
  have o: "ones 1 4 = \<lparr>shape0 = 1, cols = [[1], [1], [1], [1]]\<rparr>"
    by (simp add: ones_def numeral_Bit0 numeral_Bit1)
  show ?thesis using opt_attention_mask_from_cache [OF opt_sample_token]
      opt_attention_mask_from_cache [OF opt_sample_prompt] pl o by (simp add: opt_sample_token opt_sample_prompt)
qed

text \<open>
  C7. The adapter's \<^verbatim>\<open>forward\<close> raises \<^verbatim>\<open>NotImplementedError\<close> for every adapter and every
  argument; no input makes it return a value.
\<close>

theorem forward_raises_unconditionally:
  "forward self attention_mask = Inl NotImplementedError
   \<and> (\<nexists>r. forward self attention_mask = Inr r)"
  by (simp add: forward_def)

text \<open>
  C9. For an input with no positions the adapter's call does not return a result: the
  inference function is not invoked, the state is unchanged, and the call ends with the
  \<^verbatim>\<open>UnboundLocalError\<close> of reading \<^verbatim>\<open>ret\<close>.
\<close>

theorem call_empty_input_fails:
  "shape1 input_ids = 0 \<Longrightarrow>
     call self input_ids past oa oh rd st = (Inl UnboundLocalError, st)
   \<and> call (init (traced f) cfg) input_ids past oa oh rd (st, []) = (Inl UnboundLocalError, (st, []))"
  by (simp add: call_def)

text \<open>
  C9 on the sample prompt with no positions.
\<close>

theorem call_empty_input_fails_witness:
  "shape1 empty_prompt = 0
   \<and> call (init echo_backend ()) empty_prompt None None None None 0 = (Inl UnboundLocalError, 0)
   \<and> call (init (traced echo_backend) ()) empty_prompt None None None None (0, []) = (Inl UnboundLocalError, (0, []))"
proof -
  have h: "shape1 empty_prompt = 0" by (simp add: shape1_def empty_prompt_def)
  show ?thesis
    using h call_empty_input_fails [OF h, of "init echo_backend ()" None None None None 0 echo_backend "()"]
    by simp
qed

text \<open>
  C10, as stated, fails for an input with no positions and a non-empty cache: taking the
  last token raises \<^verbatim>\<open>IndexError\<close>.
\<close>

theorem prepare_inputs_empty_input_counterexample:
  "prepare_inputs_for_generation (init echo_backend ()) empty_prompt (Some [[5]]) = Inl IndexError"
  by (simp add: prepare_inputs_for_generation_def last_col_unsqueeze_def empty_prompt_def)

text \<open>
  C10, amended. For every input with at least one position and a cache that is present
  (not \<^verbatim>\<open>None\<close> and not empty), \<^verbatim>\<open>prepare_inputs_for_generation\<close> returns the input cut down
  to exactly its last token; for every input and an absent cache (\<^verbatim>\<open>None\<close>, or empty) it
  returns the input unchanged; in both cases the cache is passed through unchanged.
\<close>

theorem prepare_inputs_for_generation_result:
  "(truthy past \<and> 1 \<le> shape1 input_ids \<longrightarrow>
      prepare_inputs_for_generation self input_ids past =
        Inr \<lparr>gen_input_ids = \<lparr>shape0 = shape0 input_ids, cols = [last (cols input_ids)]\<rparr>,
             gen_past_key_values = past\<rparr>)
   \<and> (\<not> truthy past \<longrightarrow>
      prepare_inputs_for_generation self input_ids past =
        Inr \<lparr>gen_input_ids = input_ids, gen_past_key_values = past\<rparr>)"
  by (auto simp: prepare_inputs_for_generation_def last_col_unsqueeze_def shape1_def)

text \<open>
  C10, amended, on the sample prompt: with a cache the last column is kept, with no cache
  the prompt is returned as it is.
\<close>

theorem prepare_inputs_for_generation_result_witness:
  "truthy (Some [[5::int]]) \<and> 1 \<le> shape1 sample_prompt
   \<and> prepare_inputs_for_generation (init echo_backend ()) sample_prompt (Some [[5]])
       = Inr \<lparr>gen_input_ids = \<lparr>shape0 = 1, cols = [[9]]\<rparr>, gen_past_key_values = Some [[5]]\<rparr>
   \<and> \<not> truthy (None :: int list list option)
   \<and> prepare_inputs_for_generation (init echo_backend ()) sample_prompt None
       = Inr \<lparr>gen_input_ids = sample_prompt, gen_past_key_values = None\<rparr>"
proof -
  have h: "truthy (Some [[5::int]]) \<and> 1 \<le> shape1 sample_prompt" by (simp add: shape1_def sample_prompt_def)
  have n: "\<not> truthy (None :: int list list option)" by simp
  show ?thesis
    using h n
      prepare_inputs_for_generation_result [of "Some [[5]]" sample_prompt "init echo_backend ()"]
      prepare_inputs_for_generation_result [of None sample_prompt "init echo_backend ()"]
    by (simp add: sample_prompt_def)
qed

end
